theory Spec2Isabelle
  imports Main
begin

section \<open>The notebook documents\<close>

text \<open>
  The repository holds two Jupyter notebooks (nbformat 4). A notebook is a JSON object
  with a list of cells and some metadata; a cell carries its \<open>cell_type\<close>, an optional
  \<open>id\<close>, for a code cell the list of recorded \<open>outputs\<close>, and its \<open>source\<close>, a list
  of strings holding one line each, the newline included on every line but the last.
  The key \<open>execution_count\<close> is \<open>null\<close> and \<open>metadata\<close> is empty in every cell, so
  neither is a field here. The key \<open>outputs\<close> is absent from markdown cells
  (\<open>None\<close>) and the empty list in every code cell (\<open>Some []\<close>).
\<close>

record cell =
  cell_type :: string
  cell_id :: "string option"
  outputs :: "string list option"
  source :: "string list"

record notebook =
  cells :: "cell list"
  kernel_display_name :: string
  kernel_language :: string
  kernel_name :: string
  nbformat :: nat
  nbformat_minor :: nat

subsection \<open>The cells, as the two documents list them\<close>

text \<open>
  The file \<^verbatim>\<open>content/tesscut-in-the-cloud.ipynb\<close> holds both documents, one after the
  other. \<open>nb1_cell0\<close> to \<open>nb1_cell11\<close> are the cells of the first ("How to use TESSCut
  in the cloud?"), in order; \<open>nb2_cell0\<close> to \<open>nb2_cell17\<close> those of the second ("How to
  work with data in the cloud?"), whose cells have no id. The one character outside ASCII
  (U+203A, twice in \<open>nb2_cell7\<close>) is given by its three UTF-8 bytes.
\<close>

definition nb1_cell0_source :: "string list" where
  \<open>nb1_cell0_source =
    [''# How to use TESSCut in the cloud?\<newline>'',
     ''\<newline>'',
     ''[TESSCut](https://mast.stsci.edu/tesscut/) is an important data access service offered by the TESS data archive at MAST.  TESSCut enables users to request small cutouts from the large collection of TESS Full-Frame Images (FFI). The cutouts are created in the form of Target Pixel Files (TPF) that follow the same format as those produced by the TESS pipeline.\<newline>'',
     ''\<newline>'',
     ''The standard TESSCut service can be accessed either via a [web interface](https://mast.stsci.edu/tesscut/) in the browser or via the [astroquery package](https://astroquery.readthedocs.io/en/latest/mast/mast.html#tesscut) from a Python script or notebook.  These interfaces rely on MAST's servers to create cutouts and send them back to the user.\<newline>'',
     ''\<newline>'',
     ''While these traditional interfaces to TESSCut work fine in the cloud, they are not recommended for very data-intensive projects. Specifically, the MAST servers which power these interfaces do not currently support requesting cutouts for hundreds of objects at the same time, or requesting cutouts for areas larger than 10,000 pixels. Such requests would put an unreasonable load on the servers! The remainder of this notebook explains how you can circumvent this limitation by running the code that powers TESSCut in the cloud yourself.\<newline>'',
     ''\<newline>'',
     ''## So, how can I access large numbers of cutouts in the cloud?\<newline>'',
     ''\<newline>'',
     ''The TESSCut service works by extracting data from [pre-generated cubes of TESS pixel data](https://astrocut.readthedocs.io/en/latest/astrocut/index.html#tess-full-frame-image-cutouts). \<newline>'',
     ''These cubes are stored in MAST's public folder on Amazon's cloud object storage service, called [AWS S3](https://aws.amazon.com/s3/), which allows them to be accessed very quickly (e.g., speeds of 10 Gbps or more can be achieved when making requests from virtual servers running in the Amazon cloud).\<newline>'',
     ''\<newline>'',
     ''Specifically, pre-generated data cubes for a given sector, camera, and ccd can be found at the following S3 URI:\<newline>'',
     ''\<newline>'',
     ''    s3://stpubdata/tess/public/mast/tess-s{sector:04d}-{camera}-{ccd}-cube.fits\<newline>'',
     ''\<newline>'',
     ''For example, the data cube containing all pixel flux values for sector 11, camera 4, ccd 1 is located at:\<newline>'',
     ''\<newline>'',
     ''    s3://stpubdata/tess/public/mast/tess-s0011-4-1-cube.fits\<newline>'',
     ''\<newline>'',
     ''Caution: these files are typically very large (>100GB). They are not intended to be downloaded in full.  Instead, MAST has created the [astrocut](https://astrocut.readthedocs.io) Python package which enables users to download the exact parts of the cubes that are required to create a Target Pixel File cutout.'']\<close>

definition nb1_cell0 :: cell where
  "nb1_cell0 = \<lparr>cell_type = ''markdown'', cell_id = Some ''tight-supplement'', outputs = None, source = nb1_cell0_source\<rparr>"

definition nb1_cell1_source :: "string list" where
  \<open>nb1_cell1_source =
    [''## Example: obtaining TESS cutouts from S3-hosted cubes using `astrocut`\<newline>'',
     ''\<newline>'',
     ''### Installing astrocut with S3 support enabled\<newline>'',
     ''\<newline>'',
     ''To obtain cutouts from the TESS cube files hosted in AWS S3, you will need to install an experimental branch of `astrocut` which has been designed to read data from the cloud.  This branch can be installed as follows:\<newline>'',
     ''\<newline>'',
     ''    !pip install git+https://github.com/spacetelescope/astrocut.git@s3-support\<newline>'',
     ''\<newline>'',
     ''At the time of writing, this version of astrocut is pre-installed in the TESS Environment kernel on the TIKE platform. You can verify your installation by checking the astrocut version number, which should show v0.10 or later:'']\<close>

definition nb1_cell1 :: cell where
  "nb1_cell1 = \<lparr>cell_type = ''markdown'', cell_id = Some ''listed-bandwidth'', outputs = None, source = nb1_cell1_source\<rparr>"

definition nb1_cell2_source :: "string list" where
  \<open>nb1_cell2_source =
    [''import astrocut\<newline>'',
     ''astrocut.__version__'']\<close>

definition nb1_cell2 :: cell where
  "nb1_cell2 = \<lparr>cell_type = ''code'', cell_id = Some ''recent-avenue'', outputs = Some [], source = nb1_cell2_source\<rparr>"

definition nb1_cell3_source :: "string list" where
  \<open>nb1_cell3_source =
    [''### Obtaining a cutout\<newline>'',
     ''\<newline>'',
     ''First, we need to define an AstroPy SkyCoord object that defines the location of the cutout:'']\<close>

definition nb1_cell3 :: cell where
  "nb1_cell3 = \<lparr>cell_type = ''markdown'', cell_id = Some ''exciting-spider'', outputs = None, source = nb1_cell3_source\<rparr>"

definition nb1_cell4_source :: "string list" where
  \<open>nb1_cell4_source =
    [''from astropy.coordinates import SkyCoord\<newline>'',
     ''target_crd = SkyCoord.from_name("Pi Men")'']\<close>

definition nb1_cell4 :: cell where
  "nb1_cell4 = \<lparr>cell_type = ''code'', cell_id = Some ''wireless-walker'', outputs = Some [], source = nb1_cell4_source\<rparr>"

definition nb1_cell5_source :: "string list" where
  \<open>nb1_cell5_source =
    [''We also need to define which astrocut cube we want to extract a cutout from:'']\<close>

definition nb1_cell5 :: cell where
  "nb1_cell5 = \<lparr>cell_type = ''markdown'', cell_id = Some ''inclusive-category'', outputs = None, source = nb1_cell5_source\<rparr>"

definition nb1_cell6_source :: "string list" where
  \<open>nb1_cell6_source =
    [''sector, camera, ccd = 27, 3, 3\<newline>'',
     ''cube_file = f"s3://stpubdata/tess/public/mast/tess-s{sector:04d}-{camera}-{ccd}-cube.fits"'']\<close>

definition nb1_cell6 :: cell where
  "nb1_cell6 = \<lparr>cell_type = ''code'', cell_id = Some ''obvious-party'', outputs = Some [], source = nb1_cell6_source\<rparr>"

definition nb1_cell7_source :: "string list" where
  \<open>nb1_cell7_source =
    [''Then, we can use the astrocut's `CutoutFactory` to create the cutout:'']\<close>

definition nb1_cell7 :: cell where
  "nb1_cell7 = \<lparr>cell_type = ''markdown'', cell_id = Some ''molecular-myrtle'', outputs = None, source = nb1_cell7_source\<rparr>"

definition nb1_cell8_source :: "string list" where
  \<open>nb1_cell8_source =
    [''# The S3 feature requires nest_asyncio to work in a notebook environment\<newline>'',
     ''import nest_asyncio\<newline>'',
     ''nest_asyncio.apply()\<newline>'',
     ''\<newline>'',
     ''from astrocut import CutoutFactory\<newline>'',
     ''factory = CutoutFactory()\<newline>'',
     ''factory.cube_cut(cube_file,\<newline>'',
     ''                 coordinates=target_crd,\<newline>'',
     ''                 cutout_size=11,\<newline>'',
     ''                 target_pixel_file="astrocut-result.fits")'']\<close>

definition nb1_cell8 :: cell where
  "nb1_cell8 = \<lparr>cell_type = ''code'', cell_id = Some ''conscious-employment'', outputs = Some [], source = nb1_cell8_source\<rparr>"

definition nb1_cell9_source :: "string list" where
  \<open>nb1_cell9_source =
    [''Finally, we can plot or analyze the resulting Target Pixel File using Lightkurve as follows:'']\<close>

definition nb1_cell9 :: cell where
  "nb1_cell9 = \<lparr>cell_type = ''markdown'', cell_id = Some ''herbal-hollywood'', outputs = None, source = nb1_cell9_source\<rparr>"

definition nb1_cell10_source :: "string list" where
  \<open>nb1_cell10_source =
    [''import lightkurve as lk\<newline>'',
     ''tpf = lk.read("astrocut-result.fits")\<newline>'',
     ''tpf.plot();'']\<close>

definition nb1_cell10 :: cell where
  "nb1_cell10 = \<lparr>cell_type = ''code'', cell_id = Some ''administrative-green'', outputs = Some [], source = nb1_cell10_source\<rparr>"

definition nb1_cell11_source :: "string list" where
  \<open>nb1_cell11_source =
    [''Success!\<newline>'',
     ''\<newline>'',
     ''## Why didn't you simply use TESSCut in this example?\<newline>'',
     ''\<newline>'',
     ''Although we could have obtained an identical cutout via the traditional TESSCut interfaces, the method demonstrated here can be used to request much larger numbers of cutouts at the same time. This is because the method demonstrated here reads the required pixel values directly from AWS S3 storage, rather than asking MAST's servers to do this for you. As a result, the number and the size of the cutouts that can be retrieved in this way is only limited by the performance of the server running this Python code, and its bandwidth to transfer data from AWS S3. When running this code in a large virtual machine in the Amazon cloud, e.g. using the TIKE platform, it is likely that hundreds of cutouts can be created in parallel.'']\<close>

definition nb1_cell11 :: cell where
  "nb1_cell11 = \<lparr>cell_type = ''markdown'', cell_id = Some ''scenic-enemy'', outputs = None, source = nb1_cell11_source\<rparr>"

definition notebook1 :: notebook where
  "notebook1 = \<lparr>cells = [nb1_cell0, nb1_cell1, nb1_cell2, nb1_cell3, nb1_cell4, nb1_cell5, nb1_cell6, nb1_cell7, nb1_cell8, nb1_cell9, nb1_cell10, nb1_cell11],
     kernel_display_name = ''TESS Environment'', kernel_language = ''python'', kernel_name = ''tess'',
     nbformat = 4, nbformat_minor = 5\<rparr>"

definition nb2_cell0_source :: "string list" where
  \<open>nb2_cell0_source =
    [''# How to work with data in the cloud?\<newline>'',
     ''\<newline>'',
     ''The [MAST data archive](https://archive.stsci.edu/) provides a copy of several large NASA data sets via Amazon Web Services (AWS) as part of the [MAST AWS Public Datasets](https://registry.opendata.aws/collab/stsci/) program.\<newline>'',
     ''\<newline>'',
     ''This service is of interest to TIKE users, because the TIKE platform is hosted by AWS and therefore provides fast access to these data sets. The data are free to access and download: they do not require you to have an AWS account or use AWS credentials.\<newline>'',
     ''\<newline>'',
     ''Below we demonstrate a few ways to access the data.\<newline>'',
     ''\<newline>'',
     ''\<newline>'',
     ''## Which data sets are available in the cloud?\<newline>'',
     ''\<newline>'',
     ''At the time of writing, selected data sets from Hubble, Kepler, K2, and TESS are available via the AWS S3 cloud file storage service.  You can read more details about this service via the following MAST blog posts:\<newline>'',
     ''\<newline>'',
     ''* [Making HST Public Data Available on AWS](https://mast-labs.stsci.io/2018/06/hst-public-data-on-aws)\<newline>'',
     ''* [TESS data available on AWS](https://mast-labs.stsci.io/2018/12/tess-data-available-on-aws)\<newline>'',
     ''* [Kepler Prime Mission Data Available on AWS](https://mast-labs.stsci.io/2019/10/kepler-data-available-on-aws)\<newline>'',
     ''\<newline>'',
     ''## How can I access the cloud-hosted data?\<newline>'',
     ''\<newline>'',
     ''The data can be accessed using various client libraries, including astroquery, lightkurve, astrocut, aws-cli, boto3, s3fs, and others. Below we demonstrate a few basic ways to use these tools.'']\<close>

definition nb2_cell0 :: cell where
  "nb2_cell0 = \<lparr>cell_type = ''markdown'', cell_id = None, outputs = None, source = nb2_cell0_source\<rparr>"

definition nb2_cell1_source :: "string list" where
  \<open>nb2_cell1_source =
    [''### 1. Using `astroquery`\<newline>'',
     ''\<newline>'',
     ''The [astroquery](https://astroquery.readthedocs.io) package provides a special function, [enable_cloud_dataset()](https://astroquery.readthedocs.io/en/latest/api/astroquery.mast.ObservationsClass.html#astroquery.mast.ObservationsClass.enable_cloud_dataset), which enables users to download data products from AWS S3 rather than MAST's own servers.  Astroquery is pre-installed on TIKE and should work out of the box.\<newline>'',
     ''\<newline>'',
     ''For example, we can query and download the TESS Sector 11 pixel file for Proxima Centauri as follows:'']\<close>

definition nb2_cell1 :: cell where
  "nb2_cell1 = \<lparr>cell_type = ''markdown'', cell_id = None, outputs = None, source = nb2_cell1_source\<rparr>"

definition nb2_cell2_source :: "string list" where
  \<open>nb2_cell2_source =
    [''# Query MAST for TESS Sector 11 observations of Proxima Cen\<newline>'',
     ''from astroquery.mast import Observations\<newline>'',
     ''obs = Observations.query_object("Proxima Cen", radius="0s")\<newline>'',
     ''want = (obs['obs_collection'] == "TESS") & (obs['sequence_number'] == 11) & (obs['dataproduct_type'] == 'timeseries')\<newline>'',
     ''\<newline>'',
     ''# Pick which products we want to retrieve\<newline>'',
     ''data_prod = Observations.get_product_list(obs[want])\<newline>'',
     ''filt_prod = Observations.filter_products(data_prod, description="Target pixel files")\<newline>'',
     ''\<newline>'',
     ''# Download the product from AWS S3\<newline>'',
     ''Observations.enable_cloud_dataset(provider='AWS')\<newline>'',
     ''manifest = Observations.download_products(filt_prod, cloud_only=True)'']\<close>

definition nb2_cell2 :: cell where
  "nb2_cell2 = \<lparr>cell_type = ''code'', cell_id = None, outputs = Some [], source = nb2_cell2_source\<rparr>"

definition nb2_cell3_source :: "string list" where
  \<open>nb2_cell3_source =
    [''You can read more about this feature in the [astroquery documentation](https://astroquery.readthedocs.io/en/latest/mast/mast.html?highlight=cloud#cloud-data-access).'']\<close>

definition nb2_cell3 :: cell where
  "nb2_cell3 = \<lparr>cell_type = ''markdown'', cell_id = None, outputs = None, source = nb2_cell3_source\<rparr>"

definition nb2_cell4_source :: "string list" where
  \<open>nb2_cell4_source =
    [''### 2. Using `lightkurve`\<newline>'',
     ''\<newline>'',
     ''The [Lightkurve](https://docs.lightkurve.org) package provides search functions which use Astroquery to search and retrieve specific TESS and Kepler data products in a user-friendly way.  For example, we can download the same Proxima Centauri pixel file we obtained above as follows:'']\<close>

definition nb2_cell4 :: cell where
  "nb2_cell4 = \<lparr>cell_type = ''markdown'', cell_id = None, outputs = None, source = nb2_cell4_source\<rparr>"

definition nb2_cell5_source :: "string list" where
  \<open>nb2_cell5_source =
    [''# Important: ensure files are retrieved from AWS \<newline>'',
     ''from astroquery.mast import Observations\<newline>'',
     ''Observations.enable_cloud_dataset(provider='AWS')\<newline>'',
     ''\<newline>'',
     ''import lightkurve as lk\<newline>'',
     ''search = lk.search_targetpixelfile("Proxima Cen", sector=11, author="SPOC")\<newline>'',
     ''pixelfile = search[0].download(download_dir=".")'']\<close>

definition nb2_cell5 :: cell where
  "nb2_cell5 = \<lparr>cell_type = ''code'', cell_id = None, outputs = Some [], source = nb2_cell5_source\<rparr>"

definition nb2_cell6_source :: "string list" where
  \<open>nb2_cell6_source =
    [''Again, the call to Astroquery's `enable_cloud_dataset()` function is key to ensure that data is downloaded from AWS rather than MAST. This works because Lightkurve uses Astroquery behind the scenes.'']\<close>

definition nb2_cell6 :: cell where
  "nb2_cell6 = \<lparr>cell_type = ''markdown'', cell_id = None, outputs = None, source = nb2_cell6_source\<rparr>"

definition nb2_cell7_source :: "string list" where
  \<open>nb2_cell7_source =
    [''### 3. Using the AWS command-line tool\<newline>'',
     ''\<newline>'',
     ''S3-hosted data can also be accessed in a more direct way using the standard tools available to work with AWS. For example, a useful tool to explore data in S3 is the [AWS command-line interface](https://docs.aws.amazon.com/cli/). This tool is pre-installed on the TIKE platform and can be executed from a Terminal window (<span style="font-variant:small-caps;">file '' @ [CHR 0xE2, CHR 0x80, CHR 0xBA] @ '' new '' @ [CHR 0xE2, CHR 0x80, CHR 0xBA] @ '' terminal</span>) or from a Jupyter notebook (by prefixing it with the `!` character).\<newline>'',
     ''\<newline>'',
     ''For example, we can list the contents of the TESS data held in the public MAST S3 bucket as follows: '']\<close>

definition nb2_cell7 :: cell where
  "nb2_cell7 = \<lparr>cell_type = ''markdown'', cell_id = None, outputs = None, source = nb2_cell7_source\<rparr>"

definition nb2_cell8_source :: "string list" where
  \<open>nb2_cell8_source =
    [''!aws s3 ls s3://stpubdata/tess/public/ --no-sign-request'']\<close>

definition nb2_cell8 :: cell where
  "nb2_cell8 = \<lparr>cell_type = ''code'', cell_id = None, outputs = Some [], source = nb2_cell8_source\<rparr>"

definition nb2_cell9_source :: "string list" where
  \<open>nb2_cell9_source =
    [''The data in this bucket follow a specific directory structure and file name convention ([documented here](https://archive.stsci.edu/missions-and-data/tess/data-products)). For example, the TESS Sector 11 data products for Proxima Centauri (also known as TIC 388857263) are available at the following location:'']\<close>

definition nb2_cell9 :: cell where
  "nb2_cell9 = \<lparr>cell_type = ''markdown'', cell_id = None, outputs = None, source = nb2_cell9_source\<rparr>"

definition nb2_cell10_source :: "string list" where
  \<open>nb2_cell10_source =
    [''!aws s3 ls s3://stpubdata/tess/public/tid/s0011/0000/0003/8885/7263/ --no-sign-request'']\<close>

definition nb2_cell10 :: cell where
  "nb2_cell10 = \<lparr>cell_type = ''code'', cell_id = None, outputs = Some [], source = nb2_cell10_source\<rparr>"

definition nb2_cell11_source :: "string list" where
  \<open>nb2_cell11_source =
    [''We can copy files from this location using the `aws s3 cp` command.  For example, we can obtain the Target Pixel File (`*tp.fits`) for Proxima Centauri as follows:'']\<close>

definition nb2_cell11 :: cell where
  "nb2_cell11 = \<lparr>cell_type = ''markdown'', cell_id = None, outputs = None, source = nb2_cell11_source\<rparr>"

definition nb2_cell12_source :: "string list" where
  \<open>nb2_cell12_source =
    [''!aws s3 cp s3://stpubdata/tess/public/tid/s0011/0000/0003/8885/7263/tess2019112060037-s0011-0000000388857263-0143-s_tp.fits . --no-sign-request'']\<close>

definition nb2_cell12 :: cell where
  "nb2_cell12 = \<lparr>cell_type = ''code'', cell_id = None, outputs = Some [], source = nb2_cell12_source\<rparr>"

definition nb2_cell13_source :: "string list" where
  \<open>nb2_cell13_source =
    [''See the AWS [command line interface documentation](https://docs.aws.amazon.com/cli/latest/reference/s3/) to explore additional features.'']\<close>

definition nb2_cell13 :: cell where
  "nb2_cell13 = \<lparr>cell_type = ''markdown'', cell_id = None, outputs = None, source = nb2_cell13_source\<rparr>"

definition nb2_cell14_source :: "string list" where
  \<open>nb2_cell14_source =
    [''### 4. Using `s3fs`\<newline>'',
     ''\<newline>'',
     ''The [s3fs](https://s3fs.readthedocs.io/en/latest/) package provides a Pythonic file interface to AWS S3.  This enables us to execute the commands demonstrated above from Python rather than the command line. For example:'']\<close>

definition nb2_cell14 :: cell where
  "nb2_cell14 = \<lparr>cell_type = ''markdown'', cell_id = None, outputs = None, source = nb2_cell14_source\<rparr>"

definition nb2_cell15_source :: "string list" where
  \<open>nb2_cell15_source =
    [''# Initialize the tool\<newline>'',
     ''import s3fs\<newline>'',
     ''fs = s3fs.S3FileSystem(anon=True)\<newline>'',
     ''\<newline>'',
     ''# List the directory containing Proxima Cen data\<newline>'',
     ''fs.ls('s3://stpubdata/tess/public/tid/s0011/0000/0003/8885/7263/', refresh=True)\<newline>'',
     ''\<newline>'',
     ''# Transfer the Target Pixel File for Proxima Cen from S3\<newline>'',
     ''f = fs.get('s3://stpubdata/tess/public/tid/s0011/0000/0003/8885/7263/tess2019112060037-s0011-0000000388857263-0143-s_tp.fits', 'proxima_cen_tp.fits')'']\<close>

definition nb2_cell15 :: cell where
  "nb2_cell15 = \<lparr>cell_type = ''code'', cell_id = None, outputs = Some [], source = nb2_cell15_source\<rparr>"

definition nb2_cell16_source :: "string list" where
  \<open>nb2_cell16_source =
    [''### 5. Using `astrocut`\<newline>'',
     ''\<newline>'',
     ''The `astrocut` package provides an experimental `s3-support` branch which enables users to obtain cutouts from the large collection of TESS Full-Frame Images (FFI). Compared to the existing web-based [TESSCut service](https://mast.stsci.edu/tesscut/), running `astrocut` on TIKE enables large numbers of cutouts to be obtained directly from S3-hosted data without straining MAST's servers.\<newline>'',
     ''\<newline>'',
     ''For an example, see the dedicated tutorial on [using TESSCut in the cloud](tesscut-in-the-cloud.ipynb).'']\<close>

definition nb2_cell16 :: cell where
  "nb2_cell16 = \<lparr>cell_type = ''markdown'', cell_id = None, outputs = None, source = nb2_cell16_source\<rparr>"

definition nb2_cell17_source :: "string list" where
  \<open>nb2_cell17_source =
    [''## Further reading\<newline>'',
     ''\<newline>'',
     ''Additional examples are available here:\<newline>'',
     ''- [How to use TESSCut in the cloud?](tesscut-in-the-cloud.ipynb)\<newline>'',
     ''- [How to configure astroquery to read data products from S3?](https://astroquery.readthedocs.io/en/latest/mast/mast.html#cloud-data-access)\<newline>'',
     ''- [Using Cloud-Hosted Data](../code/cloud_astroquery.ipynb)\<newline>'',
     ''- [Reading Public Kepler Data from S3](../code/s3buckets_boto3.ipynb)\<newline>'',
     ''- How to read and write data to your own S3 bucket (content in progress)'']\<close>

definition nb2_cell17 :: cell where
  "nb2_cell17 = \<lparr>cell_type = ''markdown'', cell_id = None, outputs = None, source = nb2_cell17_source\<rparr>"

definition notebook2 :: notebook where
  "notebook2 = \<lparr>cells = [nb2_cell0, nb2_cell1, nb2_cell2, nb2_cell3, nb2_cell4, nb2_cell5, nb2_cell6, nb2_cell7, nb2_cell8, nb2_cell9, nb2_cell10, nb2_cell11, nb2_cell12, nb2_cell13, nb2_cell14, nb2_cell15, nb2_cell16, nb2_cell17],
     kernel_display_name = ''TESS Environment'', kernel_language = ''python'', kernel_name = ''tess'',
     nbformat = 4, nbformat_minor = 4\<rparr>"

definition repository :: "notebook list" where
  "repository = [notebook1, notebook2]"

definition is_markdown :: "cell \<Rightarrow> bool" where
  "is_markdown c = (cell_type c = ''markdown'')"

definition is_code :: "cell \<Rightarrow> bool" where
  "is_code c = (cell_type c = ''code'')"

definition code_cells :: "notebook \<Rightarrow> cell list" where
  "code_cells nb = filter is_code (cells nb)"

section \<open>The words of a code cell\<close>

text \<open>
  A code cell holds lines of Python and IPython shell escapes (a line whose first
  non-blank character is \<open>!\<close> is handed to the system shell). \<open>py_lex\<close> scans Python
  text the way Python's tokenizer splits it into names, keywords and numbers: a comment
  runs from \<open>#\<close> to the end of the line, a string literal from its quote to the next
  unescaped quote of the same kind, and a string prefix (\<open>f\<close>, \<open>r\<close>, \<open>b\<close>, ...) belongs to
  the literal. Neither notebook has a triple-quoted string, and the scanner has no mode
  for one.
\<close>

definition ident_char :: "char \<Rightarrow> bool" where
  "ident_char c =
     (let n = (of_char c :: nat)
      in (48 \<le> n \<and> n \<le> 57) \<or> (65 \<le> n \<and> n \<le> 90) \<or> n = 95 \<or> (97 \<le> n \<and> n \<le> 122))"

definition is_blank :: "char \<Rightarrow> bool" where
  "is_blank c = (c = CHR '' '' \<or> c = CHR 0x09 \<or> c = CHR 0x0A)"

datatype lex_mode = Code | InStr char | Esc char | InComment

definition string_prefixes :: "string list" where
  "string_prefixes =
     [''f'', ''r'', ''b'', ''u'', ''F'', ''R'', ''B'', ''U'', ''fr'', ''rf'', ''br'', ''rb'']"

definition flush :: "string \<Rightarrow> string list" where
  "flush w = (if w = [] then [] else [w])"

fun py_lex :: "lex_mode \<Rightarrow> string \<Rightarrow> string \<Rightarrow> string list" where
  "py_lex m w [] = flush w"
| "py_lex Code w (c # cs) =
     (if c = CHR ''#'' then flush w @ py_lex InComment [] cs
      else if c = CHR 0x22 \<or> c = CHR 0x27
        then (if w \<in> set string_prefixes then [] else flush w) @ py_lex (InStr c) [] cs
      else if ident_char c then py_lex Code (w @ [c]) cs
      else flush w @ py_lex Code [] cs)"
| "py_lex (InStr q) w (c # cs) =
     (if c = CHR 0x5C then py_lex (Esc q) [] cs
      else if c = q then py_lex Code [] cs
      else py_lex (InStr q) [] cs)"
| "py_lex (Esc q) w (c # cs) = py_lex (InStr q) [] cs"
| "py_lex InComment w (c # cs) =
     (if c = CHR 0x0A then py_lex Code [] cs else py_lex InComment [] cs)"

definition is_shell_line :: "string \<Rightarrow> bool" where
  "is_shell_line l = (case dropWhile is_blank l of [] \<Rightarrow> False | c # _ \<Rightarrow> c = CHR ''!'')"

definition python_lines :: "cell \<Rightarrow> string list" where
  "python_lines c = filter (\<lambda>l. \<not> is_shell_line l) (source c)"

definition shell_lines :: "cell \<Rightarrow> string list" where
  "shell_lines c = filter is_shell_line (source c)"

definition cell_words :: "cell \<Rightarrow> string list" where
  "cell_words c = py_lex Code [] (concat (python_lines c))"

text \<open>The words of a shell escape: the command line after the \<open>!\<close>, split at blanks.\<close>

fun split_blank :: "string \<Rightarrow> string \<Rightarrow> string list" where
  "split_blank w [] = flush w"
| "split_blank w (c # cs) =
     (if is_blank c then flush w @ split_blank [] cs else split_blank (w @ [c]) cs)"

definition command_words :: "string \<Rightarrow> string list" where
  "command_words l = split_blank [] (drop 1 (dropWhile is_blank l))"

text \<open>The keywords of Python 3.8, the language version both notebooks record.\<close>

definition python_keywords :: "string list" where
  "python_keywords =
     [''False'', ''None'', ''True'', ''and'', ''as'', ''assert'', ''async'', ''await'', ''break'',
      ''class'', ''continue'', ''def'', ''del'', ''elif'', ''else'', ''except'', ''finally'',
      ''for'', ''from'', ''global'', ''if'', ''import'', ''in'', ''is'', ''lambda'', ''nonlocal'',
      ''not'', ''or'', ''pass'', ''raise'', ''return'', ''try'', ''while'', ''with'', ''yield'']"

definition keywords_of :: "cell \<Rightarrow> string list" where
  "keywords_of c = remdups (filter (\<lambda>w. w \<in> set python_keywords) (cell_words c))"

section \<open>The syntax of the code cells\<close>

text \<open>
  The Python of the code cells as syntax trees: the expression and statement forms the
  cells use. A string literal keeps its quote character, an IPython shell escape is the
  statement \<open>Shell\<close>, and comments and blank lines are kept so that a cell's tree can be
  printed back (\<open>render_cell\<close>) and compared with its source text.
\<close>

datatype quote = DQ | SQ

datatype expr =
    Name string
  | Num int
  | BoolLit bool
  | Str quote string
  | FString quote "fpart list"
  | Attribute expr string
  | Subscript expr expr
  | Call expr "arg list"
  | Compare expr string expr
  | BinOp expr string expr
  | Tuple "expr list"
and fpart = Lit string | Field expr string
and arg = Pos expr | Kw string expr

datatype stmt =
    Import string "string option"
  | ImportFrom string string
  | Assign expr expr
  | ExprStmt expr
  | ExprStmtSemi expr
  | Shell string
  | Comment string
  | Blank

fun join :: "string \<Rightarrow> string list \<Rightarrow> string" where
  "join sep [] = []"
| "join sep [x] = x"
| "join sep (x # y # ys) = x @ sep @ join sep (y # ys)"

definition digit_char :: "nat \<Rightarrow> char" where
  "digit_char d = char_of (48 + d)"

fun show_nat :: "nat \<Rightarrow> string" where
  "show_nat n = (if n < 10 then [digit_char n] else show_nat (n div 10) @ [digit_char (n mod 10)])"

declare show_nat.simps [simp del]

definition show_int :: "int \<Rightarrow> string" where
  "show_int i = (if i < 0 then CHR ''-'' # show_nat (nat (- i)) else show_nat (nat i))"

definition quote_char :: "quote \<Rightarrow> char" where
  "quote_char q = (case q of DQ \<Rightarrow> CHR 0x22 | SQ \<Rightarrow> CHR 0x27)"

definition is_compare :: "expr \<Rightarrow> bool" where
  "is_compare e = (case e of Compare _ _ _ \<Rightarrow> True | _ \<Rightarrow> False)"

fun render_expr :: "expr \<Rightarrow> string"
  and render_fpart :: "fpart \<Rightarrow> string"
  and render_arg :: "arg \<Rightarrow> string" where
  "render_expr (Name x) = x"
| "render_expr (Num n) = show_int n"
| "render_expr (BoolLit b) = (if b then ''True'' else ''False'')"
| "render_expr (Str q s) = quote_char q # s @ [quote_char q]"
| "render_expr (FString q ps) =
     CHR ''f'' # quote_char q # concat (map render_fpart ps) @ [quote_char q]"
| "render_expr (Attribute e a) = render_expr e @ ''.'' @ a"
| "render_expr (Subscript e i) = render_expr e @ ''['' @ render_expr i @ '']''"
| "render_expr (Call f as) = render_expr f @ ''('' @ join '', '' (map render_arg as) @ '')''"
| "render_expr (Compare l opr r) = render_expr l @ '' '' @ opr @ '' '' @ render_expr r"
| "render_expr (BinOp l opr r) =
     (if is_compare l then ''('' @ render_expr l @ '')'' else render_expr l) @ '' '' @ opr @ '' '' @
     (if is_compare r then ''('' @ render_expr r @ '')'' else render_expr r)"
| "render_expr (Tuple es) = join '', '' (map render_expr es)"
| "render_fpart (Lit s) = s"
| "render_fpart (Field e spec) =
     ''{'' @ render_expr e @ (if spec = [] then [] else CHR '':'' # spec) @ ''}''"
| "render_arg (Pos e) = render_expr e"
| "render_arg (Kw k e) = k @ ''='' @ render_expr e"

fun render_stmt :: "stmt \<Rightarrow> string" where
  "render_stmt (Import m None) = ''import '' @ m"
| "render_stmt (Import m (Some a)) = ''import '' @ m @ '' as '' @ a"
| "render_stmt (ImportFrom m n) = ''from '' @ m @ '' import '' @ n"
| "render_stmt (Assign t v) = render_expr t @ '' = '' @ render_expr v"
| "render_stmt (ExprStmt e) = render_expr e"
| "render_stmt (ExprStmtSemi e) = render_expr e @ '';''"
| "render_stmt (Shell c) = CHR ''!'' # c"
| "render_stmt (Comment t) = CHR ''#'' # t"
| "render_stmt Blank = []"

definition render_cell :: "stmt list \<Rightarrow> string" where
  "render_cell body = join ''\<newline>'' (map render_stmt body)"

definition squash :: "string \<Rightarrow> string" where
  "squash s = filter (\<lambda>c. \<not> is_blank c) s"

text \<open>
  The trees of the eleven code cells. In the first notebook \<open>nb1_cell2\<close> is the cell
  with id \<open>recent-avenue\<close>, \<open>nb1_cell4\<close> is \<open>wireless-walker\<close>, \<open>nb1_cell6\<close> is
  \<open>obvious-party\<close>, \<open>nb1_cell8\<close> is \<open>conscious-employment\<close> and \<open>nb1_cell10\<close> is
  \<open>administrative-green\<close>.
\<close>

definition nb1_cell2_body :: "stmt list" where
  "nb1_cell2_body =
     [Import ''astrocut'' None,
      ExprStmt (Attribute (Name ''astrocut'') ''__version__'')]"

definition nb1_cell4_body :: "stmt list" where
  "nb1_cell4_body =
     [ImportFrom ''astropy.coordinates'' ''SkyCoord'',
      Assign (Name ''target_crd'')
        (Call (Attribute (Name ''SkyCoord'') ''from_name'') [Pos (Str DQ ''Pi Men'')])]"

definition nb1_cell6_body :: "stmt list" where
  "nb1_cell6_body =
     [Assign (Tuple [Name ''sector'', Name ''camera'', Name ''ccd'']) (Tuple [Num 27, Num 3, Num 3]),
      Assign (Name ''cube_file'')
        (FString DQ
          [Lit ''s3://stpubdata/tess/public/mast/tess-s'', Field (Name ''sector'') ''04d'',
           Lit ''-'', Field (Name ''camera'') [], Lit ''-'', Field (Name ''ccd'') [],
           Lit ''-cube.fits''])]"

definition nb1_cell8_body :: "stmt list" where
  "nb1_cell8_body =
     [Comment '' The S3 feature requires nest_asyncio to work in a notebook environment'',
      Import ''nest_asyncio'' None,
      ExprStmt (Call (Attribute (Name ''nest_asyncio'') ''apply'') []),
      Blank,
      ImportFrom ''astrocut'' ''CutoutFactory'',
      Assign (Name ''factory'') (Call (Name ''CutoutFactory'') []),
      ExprStmt (Call (Attribute (Name ''factory'') ''cube_cut'')
        [Pos (Name ''cube_file''),
         Kw ''coordinates'' (Name ''target_crd''),
         Kw ''cutout_size'' (Num 11),
         Kw ''target_pixel_file'' (Str DQ ''astrocut-result.fits'')])]"

definition nb1_cell10_body :: "stmt list" where
  "nb1_cell10_body =
     [Import ''lightkurve'' (Some ''lk''),
      Assign (Name ''tpf'') (Call (Attribute (Name ''lk'') ''read'') [Pos (Str DQ ''astrocut-result.fits'')]),
      ExprStmtSemi (Call (Attribute (Name ''tpf'') ''plot'') [])]"

definition nb2_cell2_body :: "stmt list" where
  "nb2_cell2_body =
     [Comment '' Query MAST for TESS Sector 11 observations of Proxima Cen'',
      ImportFrom ''astroquery.mast'' ''Observations'',
      Assign (Name ''obs'')
        (Call (Attribute (Name ''Observations'') ''query_object'')
          [Pos (Str DQ ''Proxima Cen''), Kw ''radius'' (Str DQ ''0s'')]),
      Assign (Name ''want'')
        (BinOp
          (BinOp
            (Compare (Subscript (Name ''obs'') (Str SQ ''obs_collection'')) ''=='' (Str DQ ''TESS''))
            ''&''
            (Compare (Subscript (Name ''obs'') (Str SQ ''sequence_number'')) ''=='' (Num 11)))
          ''&''
          (Compare (Subscript (Name ''obs'') (Str SQ ''dataproduct_type'')) ''==''
            (Str SQ ''timeseries''))),
      Blank,
      Comment '' Pick which products we want to retrieve'',
      Assign (Name ''data_prod'')
        (Call (Attribute (Name ''Observations'') ''get_product_list'')
          [Pos (Subscript (Name ''obs'') (Name ''want''))]),
      Assign (Name ''filt_prod'')
        (Call (Attribute (Name ''Observations'') ''filter_products'')
          [Pos (Name ''data_prod''), Kw ''description'' (Str DQ ''Target pixel files'')]),
      Blank,
      Comment '' Download the product from AWS S3'',
      ExprStmt (Call (Attribute (Name ''Observations'') ''enable_cloud_dataset'')
        [Kw ''provider'' (Str SQ ''AWS'')]),
      Assign (Name ''manifest'')
        (Call (Attribute (Name ''Observations'') ''download_products'')
          [Pos (Name ''filt_prod''), Kw ''cloud_only'' (BoolLit True)])]"

definition nb2_cell5_body :: "stmt list" where
  "nb2_cell5_body =
     [Comment '' Important: ensure files are retrieved from AWS '',
      ImportFrom ''astroquery.mast'' ''Observations'',
      ExprStmt (Call (Attribute (Name ''Observations'') ''enable_cloud_dataset'')
        [Kw ''provider'' (Str SQ ''AWS'')]),
      Blank,
      Import ''lightkurve'' (Some ''lk''),
      Assign (Name ''search'')
        (Call (Attribute (Name ''lk'') ''search_targetpixelfile'')
          [Pos (Str DQ ''Proxima Cen''), Kw ''sector'' (Num 11), Kw ''author'' (Str DQ ''SPOC'')]),
      Assign (Name ''pixelfile'')
        (Call (Attribute (Subscript (Name ''search'') (Num 0)) ''download'')
          [Kw ''download_dir'' (Str DQ ''.'')])]"

definition nb2_cell8_body :: "stmt list" where
  "nb2_cell8_body = [Shell ''aws s3 ls s3://stpubdata/tess/public/ --no-sign-request'']"

definition nb2_cell10_body :: "stmt list" where
  "nb2_cell10_body =
     [Shell ''aws s3 ls s3://stpubdata/tess/public/tid/s0011/0000/0003/8885/7263/ --no-sign-request'']"

definition nb2_cell12_body :: "stmt list" where
  "nb2_cell12_body =
     [Shell ''aws s3 cp s3://stpubdata/tess/public/tid/s0011/0000/0003/8885/7263/tess2019112060037-s0011-0000000388857263-0143-s_tp.fits . --no-sign-request'']"

definition nb2_cell15_body :: "stmt list" where
  "nb2_cell15_body =
     [Comment '' Initialize the tool'',
      Import ''s3fs'' None,
      Assign (Name ''fs'') (Call (Attribute (Name ''s3fs'') ''S3FileSystem'') [Kw ''anon'' (BoolLit True)]),
      Blank,
      Comment '' List the directory containing Proxima Cen data'',
      ExprStmt (Call (Attribute (Name ''fs'') ''ls'')
        [Pos (Str SQ ''s3://stpubdata/tess/public/tid/s0011/0000/0003/8885/7263/''),
         Kw ''refresh'' (BoolLit True)]),
      Blank,
      Comment '' Transfer the Target Pixel File for Proxima Cen from S3'',
      Assign (Name ''f'')
        (Call (Attribute (Name ''fs'') ''get'')
          [Pos (Str SQ ''s3://stpubdata/tess/public/tid/s0011/0000/0003/8885/7263/tess2019112060037-s0011-0000000388857263-0143-s_tp.fits''),
           Pos (Str SQ ''proxima_cen_tp.fits'')])]"


text \<open>The code cells of each notebook, in order, as syntax trees.\<close>

definition notebook1_bodies :: "stmt list list" where
  "notebook1_bodies =
     [nb1_cell2_body, nb1_cell4_body, nb1_cell6_body, nb1_cell8_body, nb1_cell10_body]"

definition notebook2_bodies :: "stmt list list" where
  "notebook2_bodies =
     [nb2_cell2_body, nb2_cell5_body, nb2_cell8_body, nb2_cell10_body, nb2_cell12_body,
      nb2_cell15_body]"

section \<open>Names, calls and where an operation is carried out\<close>

text \<open>Every node of an expression, the expression itself first.\<close>

fun subexprs :: "expr \<Rightarrow> expr list"
  and subexprs_fpart :: "fpart \<Rightarrow> expr list"
  and subexprs_arg :: "arg \<Rightarrow> expr list" where
  "subexprs (Name x) = [Name x]"
| "subexprs (Num n) = [Num n]"
| "subexprs (BoolLit b) = [BoolLit b]"
| "subexprs (Str q s) = [Str q s]"
| "subexprs (FString q ps) = FString q ps # concat (map subexprs_fpart ps)"
| "subexprs (Attribute e a) = Attribute e a # subexprs e"
| "subexprs (Subscript e i) = Subscript e i # subexprs e @ subexprs i"
| "subexprs (Call f as) = Call f as # subexprs f @ concat (map subexprs_arg as)"
| "subexprs (Compare l opr r) = Compare l opr r # subexprs l @ subexprs r"
| "subexprs (BinOp l opr r) = BinOp l opr r # subexprs l @ subexprs r"
| "subexprs (Tuple es) = Tuple es # concat (map subexprs es)"
| "subexprs_fpart (Lit s) = []"
| "subexprs_fpart (Field e spec) = subexprs e"
| "subexprs_arg (Pos e) = subexprs e"
| "subexprs_arg (Kw k e) = subexprs e"

text \<open>The expressions a statement evaluates (an assignment evaluates its right-hand side).\<close>

fun stmt_exprs :: "stmt \<Rightarrow> expr list" where
  "stmt_exprs (Assign t v) = [v]"
| "stmt_exprs (ExprStmt e) = [e]"
| "stmt_exprs (ExprStmtSemi e) = [e]"
| "stmt_exprs _ = []"

definition stmt_nodes :: "stmt \<Rightarrow> expr list" where
  "stmt_nodes s = concat (map subexprs (stmt_exprs s))"

definition cell_nodes :: "stmt list \<Rightarrow> expr list" where
  "cell_nodes body = concat (map stmt_nodes body)"

subsection \<open>Names read and bound\<close>

fun targets :: "expr \<Rightarrow> string list" where
  "targets (Name x) = [x]"
| "targets (Tuple es) = concat (map targets es)"
| "targets _ = []"

definition name_of :: "expr \<Rightarrow> string list" where
  "name_of e = (case e of Name x \<Rightarrow> [x] | _ \<Rightarrow> [])"

definition stmt_reads :: "stmt \<Rightarrow> string list" where
  "stmt_reads s = concat (map name_of (stmt_nodes s))"

definition top_module :: "string \<Rightarrow> string" where
  "top_module m = takeWhile (\<lambda>c. c \<noteq> CHR ''.'') m"

fun stmt_binds :: "stmt \<Rightarrow> string list" where
  "stmt_binds (Import m None) = [top_module m]"
| "stmt_binds (Import m (Some a)) = [a]"
| "stmt_binds (ImportFrom m n) = [n]"
| "stmt_binds (Assign t v) = targets t"
| "stmt_binds _ = []"

text \<open>
  The names a sequence of statements reads before it has bound them, given the names
  already bound: what the sequence needs from the statements run before it.
\<close>

fun free_names :: "string list \<Rightarrow> stmt list \<Rightarrow> string list" where
  "free_names bound [] = []"
| "free_names bound (s # ss) =
     filter (\<lambda>x. x \<notin> set bound) (stmt_reads s) @ free_names (stmt_binds s @ bound) ss"

definition cell_binds :: "stmt list \<Rightarrow> string list" where
  "cell_binds body = concat (map stmt_binds body)"

text \<open>For every cell, the earlier cells of the notebook that bind a name it needs.\<close>

definition needs_from :: "stmt list list \<Rightarrow> nat \<Rightarrow> (string \<times> nat) list" where
  "needs_from bodies i =
     concat (map (\<lambda>x. map (\<lambda>j. (x, j)) (filter (\<lambda>j. x \<in> set (cell_binds (bodies ! j))) [0..<i]))
       (free_names [] (bodies ! i)))"

subsection \<open>File names\<close>

definition str_of :: "expr \<Rightarrow> string list" where
  "str_of e = (case e of Str q s \<Rightarrow> [s] | _ \<Rightarrow> [])"

definition is_fits_name :: "string \<Rightarrow> bool" where
  "is_fits_name s = (drop (length s - 5) s = ''.fits'')"

definition is_s3_uri :: "string \<Rightarrow> bool" where
  "is_s3_uri s = (take 5 s = ''s3://'')"

definition fits_literals :: "stmt list \<Rightarrow> string list" where
  "fits_literals body = filter is_fits_name (concat (map str_of (cell_nodes body)))"

definition local_files :: "stmt list \<Rightarrow> string list" where
  "local_files body = remdups (filter (\<lambda>s. \<not> is_s3_uri s) (fits_literals body))"

text \<open>The pairs of distinct cells (by position) that name the same local file.\<close>

definition shared_files :: "stmt list list \<Rightarrow> (nat \<times> nat \<times> string) list" where
  "shared_files bodies =
     concat (map (\<lambda>i. concat (map (\<lambda>j.
         map (\<lambda>s. (i, j, s)) (filter (\<lambda>s. s \<in> set (local_files (bodies ! j))) (local_files (bodies ! i))))
       [Suc i..<length bodies])) [0..<length bodies])"

subsection \<open>Calls\<close>

definition callee_of :: "expr \<Rightarrow> expr list" where
  "callee_of e = (case e of Call f as \<Rightarrow> [f] | _ \<Rightarrow> [])"

definition is_shell :: "stmt \<Rightarrow> bool" where
  "is_shell s = (case s of Shell c \<Rightarrow> True | _ \<Rightarrow> False)"

definition call_count :: "stmt list \<Rightarrow> nat" where
  "call_count body = length (concat (map callee_of (cell_nodes body))) + length (filter is_shell body)"







text \<open>How a cell ends: IPython echoes the value of a final expression statement, unless a
  semicolon follows it; an assignment keeps the value in a variable; a shell escape prints
  the command's output.\<close>

datatype ending = Echoed | Suppressed | Kept | CommandOutput | Nothing

definition ending_of :: "stmt list \<Rightarrow> ending" where
  "ending_of body =
     (case rev body of
        [] \<Rightarrow> Nothing
      | ExprStmt e # _ \<Rightarrow> Echoed
      | ExprStmtSemi e # _ \<Rightarrow> Suppressed
      | Assign t v # _ \<Rightarrow> Kept
      | Shell c # _ \<Rightarrow> CommandOutput
      | _ \<Rightarrow> Nothing)"

subsection \<open>Where an operation is carried out\<close>

text \<open>
  Python dispatches an attribute access, a subscript, a call and an operator to the type
  of the object it is applied to. A cell works with two kinds of objects: the values it
  builds itself from literals (numbers, strings, tuples of them, f-strings), whose types
  are the interpreter's own, and the objects it obtains through a library: a name it
  imports, and whatever an operation on such an object gives back.

  \<open>origin\<close> follows an object back to the top-level package of the import it was
  obtained through. This is the provenance of the object, not the package that defines
  its type, which the source does not tell: the table that astroquery's \<open>query_object\<close>
  gives back is an astropy table, and comparing its columns gives arrays of numpy, so the
  two \<open>&\<close> of the second notebook run in numpy while \<open>origin\<close> names astroquery,
  the library the cell obtained the operands through. What the source does tell is that
  no cell defines a class; so an operation on an object that has an origin is carried out
  by code outside the repository, and an operation on a value the cell built itself by the
  interpreter. An environment maps the names bound so far to the library they were
  obtained through; a name bound to a value the cell built itself has no entry.

  A \<open>site\<close> records this for one operation: \<open>Via lib\<close> is an operation on an object
  obtained through the library \<open>lib\<close> (for a call: a function or method reached through
  \<open>lib\<close>), \<open>Tool t\<close> a shell command that runs the program \<open>t\<close>, and
  \<open>Interpreter\<close> an operation of the interpreter on the cell's own values.
\<close>

datatype site = Via string | Tool string | Interpreter

type_synonym env = "(string \<times> string) list"

fun origin :: "env \<Rightarrow> expr \<Rightarrow> string option" where
  "origin env (Name x) = map_of env x"
| "origin env (Attribute e a) = origin env e"
| "origin env (Subscript e i) = origin env e"
| "origin env (Call f as) = origin env f"
| "origin env (Compare l opr r) =
     (case origin env l of Some lib \<Rightarrow> Some lib | None \<Rightarrow> origin env r)"
| "origin env (BinOp l opr r) =
     (case origin env l of Some lib \<Rightarrow> Some lib | None \<Rightarrow> origin env r)"
| "origin env _ = None"

definition site_of :: "env \<Rightarrow> expr \<Rightarrow> site" where
  "site_of env e = (case origin env e of Some lib \<Rightarrow> Via lib | None \<Rightarrow> Interpreter)"

definition is_field :: "fpart \<Rightarrow> bool" where
  "is_field p = (case p of Field e spec \<Rightarrow> True | Lit s \<Rightarrow> False)"

text \<open>
  The operations are the nodes that compute: attribute access, subscript, call,
  comparison, binary operator, and the formatting of an f-string with replacement fields
  (done by the interpreter itself). Names, literals and tuples of them compute nothing.
  The site of a call is that of its callee, the site of an attribute access or a
  subscript that of the object, the site of a comparison or an operator that of its
  first operand with an origin.
\<close>

definition node_site :: "env \<Rightarrow> expr \<Rightarrow> site list" where
  "node_site env e =
     (case e of
        FString q ps \<Rightarrow> (if list_ex is_field ps then [Interpreter] else [])
      | Attribute x a \<Rightarrow> [site_of env x]
      | Subscript x i \<Rightarrow> [site_of env x]
      | Call f as \<Rightarrow> [site_of env f]
      | Compare l opr r \<Rightarrow> [site_of env e]
      | BinOp l opr r \<Rightarrow> [site_of env e]
      | _ \<Rightarrow> [])"

fun bind_stmt :: "env \<Rightarrow> stmt \<Rightarrow> env" where
  "bind_stmt env (Import m None) = (top_module m, top_module m) # env"
| "bind_stmt env (Import m (Some a)) = (a, top_module m) # env"
| "bind_stmt env (ImportFrom m n) = (n, top_module m) # env"
| "bind_stmt env (Assign t v) =
     (case origin env v of
        Some lib \<Rightarrow> map (\<lambda>x. (x, lib)) (targets t) @ env
      | None \<Rightarrow> filter (\<lambda>b. fst b \<notin> set (targets t)) env)"
| "bind_stmt env _ = env"

definition first_word :: "string \<Rightarrow> string" where
  "first_word c = (case split_blank [] c of [] \<Rightarrow> [] | w # _ \<Rightarrow> w)"

definition stmt_sites :: "env \<Rightarrow> stmt \<Rightarrow> site list" where
  "stmt_sites env s =
     (case s of
        Shell c \<Rightarrow> [Tool (first_word c)]
      | _ \<Rightarrow> concat (map (node_site env) (stmt_nodes s)))"

fun cell_sites :: "env \<Rightarrow> stmt list \<Rightarrow> site list" where
  "cell_sites env [] = []"
| "cell_sites env (s # ss) = stmt_sites env s @ cell_sites (bind_stmt env s) ss"


text \<open>
  The operations of a cell with their kind, so that the calls (and the shell commands,
  which call a program) can be told from the other operations.
\<close>

datatype opkind =
  Calling | Command | AttributeAccess | Subscription | Comparison | BinaryOperation | Formatting

definition node_kind :: "expr \<Rightarrow> opkind list" where
  "node_kind e =
     (case e of
        FString q ps \<Rightarrow> (if list_ex is_field ps then [Formatting] else [])
      | Attribute x a \<Rightarrow> [AttributeAccess]
      | Subscript x i \<Rightarrow> [Subscription]
      | Call f as \<Rightarrow> [Calling]
      | Compare l opr r \<Rightarrow> [Comparison]
      | BinOp l opr r \<Rightarrow> [BinaryOperation]
      | _ \<Rightarrow> [])"

definition stmt_operations :: "env \<Rightarrow> stmt \<Rightarrow> (opkind \<times> site) list" where
  "stmt_operations env s =
     (case s of
        Shell c \<Rightarrow> [(Command, Tool (first_word c))]
      | _ \<Rightarrow> concat (map (\<lambda>e. zip (node_kind e) (node_site env e)) (stmt_nodes s)))"

fun cell_operations :: "env \<Rightarrow> stmt list \<Rightarrow> (opkind \<times> site) list" where
  "cell_operations env [] = []"
| "cell_operations env (s # ss) =
     stmt_operations env s @ cell_operations (bind_stmt env s) ss"

fun notebook_operations :: "env \<Rightarrow> stmt list list \<Rightarrow> (opkind \<times> site) list list" where
  "notebook_operations env [] = []"
| "notebook_operations env (b # bs) =
     cell_operations env b # notebook_operations (foldl bind_stmt env b) bs"

definition is_call :: "opkind \<times> site \<Rightarrow> bool" where
  "is_call p = (fst p = Calling \<or> fst p = Command)"

definition calls_of :: "(opkind \<times> site) list list \<Rightarrow> site list" where
  "calls_of ops = map snd (filter is_call (concat ops))"

definition other_operations :: "(opkind \<times> site) list list \<Rightarrow> (opkind \<times> site) list list" where
  "other_operations ops = map (filter (\<lambda>p. \<not> is_call p)) ops"

text \<open>
  The libraries and the tool the notebooks name: a call is external when its site is one
  of these.
\<close>

definition external_tools :: "site list" where
  "external_tools =
     [Via ''astrocut'', Via ''astropy'', Via ''astroquery'', Via ''lightkurve'',
      Via ''s3fs'', Via ''nest_asyncio'', Tool ''aws'']"









subsection \<open>Constructs looked for in the cells\<close>

text \<open>Every construct that defines a function or a class starts with one of these keywords.\<close>

definition definition_keywords :: "string list" where
  "definition_keywords = [''def'', ''class'', ''lambda'']"








section \<open>Evaluating the cube URI\<close>

text \<open>
  The one computation the notebooks spell out themselves is the f-string of cell
  \<open>obvious-party\<close>. \<open>eval_expr\<close> evaluates the expressions a cell builds from literals:
  names, numbers, strings, tuples and f-strings; an operation on a library's object is
  outside it (\<open>None\<close>). \<open>format_int\<close> is Python's \<open>format(i, spec)\<close> for the
  specifications of the form \<open>[0][width]d\<close> and the empty one: the width is a minimum,
  the flag \<open>0\<close> pads with zeros between the sign and the digits, and without it the
  number is right-aligned with spaces.
\<close>

datatype pyval = VInt int | VStr string | VBool bool | VTuple "pyval list"

definition is_digit :: "char \<Rightarrow> bool" where
  "is_digit c = (let n = (of_char c :: nat) in 48 \<le> n \<and> n \<le> 57)"

fun read_nat :: "nat \<Rightarrow> string \<Rightarrow> nat option" where
  "read_nat acc [] = Some acc"
| "read_nat acc (c # cs) =
     (if is_digit c then read_nat (10 * acc + (of_char c - 48)) cs else None)"

definition pad_int :: "bool \<Rightarrow> nat \<Rightarrow> int \<Rightarrow> string" where
  "pad_int zero w i =
     (let sg = (if i < 0 then ''-'' else []); ds = show_nat (nat (abs i));
          n = length sg + length ds
      in if zero then sg @ replicate (w - n) (CHR ''0'') @ ds
         else replicate (w - n) (CHR '' '') @ sg @ ds)"

definition format_int :: "string \<Rightarrow> int \<Rightarrow> string option" where
  "format_int spec i =
     (if spec = [] then Some (show_int i)
      else if last spec = CHR ''d'' then
        (case read_nat 0 (butlast spec) of
           None \<Rightarrow> None
         | Some w \<Rightarrow> Some (pad_int (take 1 spec = ''0'') w i))
      else None)"

fun py_format :: "string \<Rightarrow> pyval \<Rightarrow> string option" where
  "py_format spec (VInt i) = format_int spec i"
| "py_format spec (VStr s) = (if spec = [] then Some s else None)"
| "py_format spec (VBool b) = (if spec = [] then Some (if b then ''True'' else ''False'') else None)"
| "py_format spec (VTuple vs) = None"

type_synonym store = "(string \<times> pyval) list"

fun eval_expr :: "store \<Rightarrow> expr \<Rightarrow> pyval option"
  and eval_fparts :: "store \<Rightarrow> fpart list \<Rightarrow> string option"
  and eval_exprs :: "store \<Rightarrow> expr list \<Rightarrow> pyval list option" where
  "eval_expr st (Name x) = map_of st x"
| "eval_expr st (Num n) = Some (VInt n)"
| "eval_expr st (BoolLit b) = Some (VBool b)"
| "eval_expr st (Str q s) = Some (VStr s)"
| "eval_expr st (FString q ps) = map_option VStr (eval_fparts st ps)"
| "eval_expr st (Tuple es) = map_option VTuple (eval_exprs st es)"
| "eval_expr st (Attribute e a) = None"
| "eval_expr st (Subscript e i) = None"
| "eval_expr st (Call f as) = None"
| "eval_expr st (Compare l opr r) = None"
| "eval_expr st (BinOp l opr r) = None"
| "eval_fparts st [] = Some []"
| "eval_fparts st (Lit s # ps) = map_option (\<lambda>r. s @ r) (eval_fparts st ps)"
| "eval_fparts st (Field e spec # ps) =
     (case eval_expr st e of
        None \<Rightarrow> None
      | Some v \<Rightarrow>
          (case py_format spec v of
             None \<Rightarrow> None
           | Some s \<Rightarrow> map_option (\<lambda>r. s @ r) (eval_fparts st ps)))"
| "eval_exprs st [] = Some []"
| "eval_exprs st (e # es) =
     (case eval_expr st e of
        None \<Rightarrow> None
      | Some v \<Rightarrow> map_option (\<lambda>vs. v # vs) (eval_exprs st es))"

text \<open>Assignment binds a name, or unpacks a tuple into names, left to right.\<close>

fun unpack :: "expr list \<Rightarrow> pyval list \<Rightarrow> store \<Rightarrow> store option" where
  "unpack [] [] st = Some st"
| "unpack (Name x # ts) (v # vs) st = unpack ts vs ((x, v) # st)"
| "unpack _ _ st = None"

fun assign :: "expr \<Rightarrow> pyval \<Rightarrow> store \<Rightarrow> store option" where
  "assign (Name x) v st = Some ((x, v) # st)"
| "assign (Tuple ts) (VTuple vs) st = unpack ts vs st"
| "assign _ _ st = None"

fun exec_stmt :: "store \<Rightarrow> stmt \<Rightarrow> store option" where
  "exec_stmt st (Assign t v) =
     (case eval_expr st v of None \<Rightarrow> None | Some x \<Rightarrow> assign t x st)"
| "exec_stmt st (Comment c) = Some st"
| "exec_stmt st Blank = Some st"
| "exec_stmt st _ = None"

fun exec_cell :: "store \<Rightarrow> stmt list \<Rightarrow> store option" where
  "exec_cell st [] = Some st"
| "exec_cell st (s # ss) =
     (case exec_stmt st s of None \<Rightarrow> None | Some st' \<Rightarrow> exec_cell st' ss)"

text \<open>The expression cell \<open>obvious-party\<close> assigns to \<open>cube_file\<close>, and its value for a
  given sector, camera and ccd.\<close>

definition assigned :: "string \<Rightarrow> stmt list \<Rightarrow> expr list" where
  "assigned x body =
     concat (map (\<lambda>s. case s of Assign (Name y) v \<Rightarrow> (if y = x then [v] else []) | _ \<Rightarrow> []) body)"

definition cube_uri :: "int \<Rightarrow> int \<Rightarrow> int \<Rightarrow> pyval option" where
  "cube_uri sector camera ccd =
     (case assigned ''cube_file'' nb1_cell6_body of
        [v] \<Rightarrow> eval_expr [(''sector'', VInt sector), (''camera'', VInt camera), (''ccd'', VInt ccd)] v
      | _ \<Rightarrow> None)"

definition field_specs :: "string \<Rightarrow> fpart list \<Rightarrow> string list" where
  "field_specs x ps =
     concat (map (\<lambda>p. case p of Field (Name y) spec \<Rightarrow> (if y = x then [spec] else []) | _ \<Rightarrow> []) ps)"

definition sector_field :: "int \<Rightarrow> string option" where
  "sector_field sector =
     (case assigned ''cube_file'' nb1_cell6_body of
        [FString q ps] \<Rightarrow>
          (case field_specs ''sector'' ps of [spec] \<Rightarrow> format_int spec sector | _ \<Rightarrow> None)
      | _ \<Rightarrow> None)"

definition template_text :: "expr \<Rightarrow> string" where
  "template_text e = (case e of FString q ps \<Rightarrow> concat (map render_fpart ps) | _ \<Rightarrow> [])"

definition all_code_cells :: "cell list" where
  "all_code_cells = concat (map code_cells repository)"


section \<open>The calls that are handed an S3 URI\<close>







section \<open>Cell kinds\<close>

lemmas nb1_cell_defs =
  nb1_cell0_def nb1_cell1_def nb1_cell2_def nb1_cell3_def nb1_cell4_def nb1_cell5_def
  nb1_cell6_def nb1_cell7_def nb1_cell8_def nb1_cell9_def nb1_cell10_def nb1_cell11_def

lemmas nb2_cell_defs =
  nb2_cell0_def nb2_cell1_def nb2_cell2_def nb2_cell3_def nb2_cell4_def nb2_cell5_def
  nb2_cell6_def nb2_cell7_def nb2_cell8_def nb2_cell9_def nb2_cell10_def nb2_cell11_def
  nb2_cell12_def nb2_cell13_def nb2_cell14_def nb2_cell15_def nb2_cell16_def nb2_cell17_def

lemma code_cells_notebook1:
  "code_cells notebook1 = [nb1_cell2, nb1_cell4, nb1_cell6, nb1_cell8, nb1_cell10]"
  by (simp add: code_cells_def is_code_def notebook1_def nb1_cell_defs)

lemma code_cells_notebook2:
  "code_cells notebook2 = [nb2_cell2, nb2_cell5, nb2_cell8, nb2_cell10, nb2_cell12, nb2_cell15]"
  by (simp add: code_cells_def is_code_def notebook2_def nb2_cell_defs)

text \<open>
  C3. The source consists of exactly two notebook documents (both of nbformat 4), and
  every cell of both has cell type \<open>markdown\<close> or \<open>code\<close>; each document is a
  sequence of cells of both kinds.
\<close>

theorem C3_two_notebooks_of_markdown_and_code_cells:
  "length repository = 2 \<and> list_all (\<lambda>nb. nbformat nb = 4) repository \<and>
   list_all (\<lambda>nb. list_all (\<lambda>c. is_markdown c \<or> is_code c) (cells nb)) repository \<and>
   list_all (\<lambda>nb. list_ex is_markdown (cells nb) \<and> list_ex is_code (cells nb)) repository"
  by (simp add: repository_def is_markdown_def is_code_def notebook1_def notebook2_def
      nb1_cell_defs nb2_cell_defs)

section \<open>The syntax trees are the source\<close>

text \<open>
  Printing the syntax tree of a code cell gives back the cell's source text, character by
  character; in cell \<open>conscious-employment\<close>, whose last call is laid out over four lines,
  up to blanks and line breaks.
\<close>

lemma render_nb1_cell2: "render_cell nb1_cell2_body = concat (source nb1_cell2)"
  by code_simp

lemma render_nb1_cell4: "render_cell nb1_cell4_body = concat (source nb1_cell4)"
  by code_simp

lemma render_nb1_cell6: "render_cell nb1_cell6_body = concat (source nb1_cell6)"
  by code_simp

lemma render_nb1_cell8:
  "squash (render_cell nb1_cell8_body) = squash (concat (source nb1_cell8))"
  by code_simp

lemma render_nb1_cell10: "render_cell nb1_cell10_body = concat (source nb1_cell10)"
  by code_simp

lemma render_nb2_cell2: "render_cell nb2_cell2_body = concat (source nb2_cell2)"
  by code_simp

lemma render_nb2_cell5: "render_cell nb2_cell5_body = concat (source nb2_cell5)"
  by code_simp

lemma render_nb2_cell8: "render_cell nb2_cell8_body = concat (source nb2_cell8)"
  by code_simp

lemma render_nb2_cell10: "render_cell nb2_cell10_body = concat (source nb2_cell10)"
  by code_simp

lemma render_nb2_cell12: "render_cell nb2_cell12_body = concat (source nb2_cell12)"
  by code_simp

lemma render_nb2_cell15: "render_cell nb2_cell15_body = concat (source nb2_cell15)"
  by code_simp

lemma bodies_are_the_code_cells:
  "map (\<lambda>b. squash (render_cell b)) notebook1_bodies =
     map (\<lambda>c. squash (concat (source c))) (code_cells notebook1) \<and>
   map (\<lambda>b. squash (render_cell b)) notebook2_bodies =
     map (\<lambda>c. squash (concat (source c))) (code_cells notebook2)"
  by (simp add: notebook1_bodies_def notebook2_bodies_def code_cells_notebook1
      code_cells_notebook2 render_nb1_cell2 render_nb1_cell4 render_nb1_cell6 render_nb1_cell8
      render_nb1_cell10 render_nb2_cell2 render_nb2_cell5 render_nb2_cell8 render_nb2_cell10
      render_nb2_cell12 render_nb2_cell15)

section \<open>The words of the code cells\<close>

lemma words_notebook1:
  "map cell_words (code_cells notebook1) =
     [[''import'', ''astrocut'', ''astrocut'', ''__version__''],
      [''from'', ''astropy'', ''coordinates'', ''import'', ''SkyCoord'', ''target_crd'',
       ''SkyCoord'', ''from_name''],
      [''sector'', ''camera'', ''ccd'', ''27'', ''3'', ''3'', ''cube_file''],
      [''import'', ''nest_asyncio'', ''nest_asyncio'', ''apply'', ''from'', ''astrocut'',
       ''import'', ''CutoutFactory'', ''factory'', ''CutoutFactory'', ''factory'', ''cube_cut'',
       ''cube_file'', ''coordinates'', ''target_crd'', ''cutout_size'', ''11'',
       ''target_pixel_file''],
      [''import'', ''lightkurve'', ''as'', ''lk'', ''tpf'', ''lk'', ''read'', ''tpf'', ''plot'']]"
  unfolding code_cells_notebook1 by code_simp

lemma words_notebook2:
  "map cell_words (code_cells notebook2) =
     [[''from'', ''astroquery'', ''mast'', ''import'', ''Observations'', ''obs'', ''Observations'',
       ''query_object'', ''radius'', ''want'', ''obs'', ''obs'', ''11'', ''obs'', ''data_prod'',
       ''Observations'', ''get_product_list'', ''obs'', ''want'', ''filt_prod'', ''Observations'',
       ''filter_products'', ''data_prod'', ''description'', ''Observations'',
       ''enable_cloud_dataset'', ''provider'', ''manifest'', ''Observations'',
       ''download_products'', ''filt_prod'', ''cloud_only'', ''True''],
      [''from'', ''astroquery'', ''mast'', ''import'', ''Observations'', ''Observations'',
       ''enable_cloud_dataset'', ''provider'', ''import'', ''lightkurve'', ''as'', ''lk'',
       ''search'', ''lk'', ''search_targetpixelfile'', ''sector'', ''11'', ''author'',
       ''pixelfile'', ''search'', ''0'', ''download'', ''download_dir''],
      [], [], [],
      [''import'', ''s3fs'', ''fs'', ''s3fs'', ''S3FileSystem'', ''anon'', ''True'', ''fs'', ''ls'',
       ''refresh'', ''True'', ''f'', ''fs'', ''get'']]"
  unfolding code_cells_notebook2 by code_simp

lemma keywords_notebook1:
  "map keywords_of (code_cells notebook1) =
     [[''import''], [''from'', ''import''], [], [''from'', ''import''], [''import'', ''as'']]"
  unfolding code_cells_notebook1 by code_simp

lemma keywords_notebook2:
  "map keywords_of (code_cells notebook2) =
     [[''from'', ''import'', ''True''], [''from'', ''import'', ''as''], [], [], [],
      [''import'', ''True'']]"
  unfolding code_cells_notebook2 by code_simp

lemma commands_notebook1:
  "map shell_lines (code_cells notebook1) = [[], [], [], [], []]"
  unfolding code_cells_notebook1 by code_simp

lemma commands_notebook2:
  "map (\<lambda>c. map command_words (shell_lines c)) (code_cells notebook2) =
     [[], [],
      [[''aws'', ''s3'', ''ls'', ''s3://stpubdata/tess/public/'', ''--no-sign-request'']],
      [[''aws'', ''s3'', ''ls'', ''s3://stpubdata/tess/public/tid/s0011/0000/0003/8885/7263/'',
        ''--no-sign-request'']],
      [[''aws'', ''s3'', ''cp'',
        ''s3://stpubdata/tess/public/tid/s0011/0000/0003/8885/7263/tess2019112060037-s0011-0000000388857263-0143-s_tp.fits'',
        ''.'', ''--no-sign-request'']],
      []]"
  unfolding code_cells_notebook2 by code_simp

section \<open>Where the operations of the cells are carried out\<close>






section \<open>Dependencies between cells\<close>

lemma free_names_notebook1:
  "map (free_names []) notebook1_bodies = [[], [], [], [''cube_file'', ''target_crd''], []]"
  by code_simp

lemma free_names_notebook2:
  "map (free_names []) notebook2_bodies = [[], [], [], [], [], []]"
  by code_simp

lemma free_names_append:
  "free_names bound (xs @ ys) =
     free_names bound xs @ free_names (concat (map stmt_binds (rev xs)) @ bound) ys"
  by (induction xs arbitrary: bound) simp_all

lemma names_bound_before_read:
  "list_all (\<lambda>bodies. free_names [] (concat bodies) = []) [notebook1_bodies, notebook2_bodies]"
  by code_simp

lemma call_counts:
  "map call_count notebook1_bodies = [0, 1, 0, 3, 2] \<and>
   map call_count notebook2_bodies = [5, 3, 1, 1, 1, 3]"
  by code_simp

text \<open>
  C1, as stated, fails at cell \<open>conscious-employment\<close> of the first notebook: the cell
  reads \<open>cube_file\<close> and \<open>target_crd\<close>, which it does not bind itself, and it makes three
  calls (\<open>nest_asyncio.apply\<close>, \<open>CutoutFactory\<close> and \<open>factory.cube_cut\<close>), not one.
\<close>

theorem C1_counterexample_conscious_employment:
  "free_names [] nb1_cell8_body = [''cube_file'', ''target_crd''] \<and> call_count nb1_cell8_body = 3"
  by code_simp

text \<open>
  C1, amended. The code cells of a notebook run in order in one kernel, and every name a
  cell reads is bound in the same cell or in an earlier cell of the same notebook. Every
  code cell of the second notebook reads no name and no local file of another cell. In
  the first notebook, cell \<open>conscious-employment\<close> (the fourth code cell) reads
  \<open>cube_file\<close>, bound by the third, and \<open>target_crd\<close>, bound by the second, and the fifth
  cell names the local file \<open>astrocut-result.fits\<close> that the fourth names too; no other
  cell reads a name or names a local file of another cell. A code cell makes between zero
  and five calls, a shell command counted as one. Each code cell ends by echoing the value
  of its last expression, by plotting with the echo suppressed, by keeping the value in a
  variable, or by printing the output of its shell command.
\<close>

theorem C1_cells_in_sequence_with_dependencies:
  "list_all (\<lambda>bodies. free_names [] (concat bodies) = []) [notebook1_bodies, notebook2_bodies] \<and>
   map (free_names []) notebook2_bodies = [[], [], [], [], [], []] \<and>
   shared_files notebook2_bodies = [] \<and>
   map (needs_from notebook1_bodies) [0..<5] =
     [[], [], [], [(''cube_file'', 2), (''target_crd'', 1)], []] \<and>
   shared_files notebook1_bodies = [(3, 4, ''astrocut-result.fits'')] \<and>
   map call_count notebook1_bodies = [0, 1, 0, 3, 2] \<and>
   map call_count notebook2_bodies = [5, 3, 1, 1, 1, 3] \<and>
   map ending_of notebook1_bodies = [Echoed, Kept, Kept, Echoed, Suppressed] \<and>
   map ending_of notebook2_bodies = [Kept, Kept, CommandOutput, CommandOutput, CommandOutput, Kept]"
proof -
  have needs: "map (needs_from notebook1_bodies) [0..<5] =
      [[], [], [], [(''cube_file'', 2), (''target_crd'', 1)], []]"
    by code_simp
  have files: "shared_files notebook1_bodies = [(3, 4, ''astrocut-result.fits'')] \<and>
      shared_files notebook2_bodies = []"
    by code_simp
  have endings: "map ending_of notebook1_bodies = [Echoed, Kept, Kept, Echoed, Suppressed] \<and>
      map ending_of notebook2_bodies =
        [Kept, Kept, CommandOutput, CommandOutput, CommandOutput, Kept]"
    by code_simp
  from names_bound_before_read needs files endings free_names_notebook2 call_counts
  show ?thesis
    by - (intro conjI, (elim conjE, assumption)+)
qed

section \<open>Definitions and computations of the cells\<close>

lemma no_definition_keywords:
  "list_all (\<lambda>c. list_all (\<lambda>w. w \<notin> set definition_keywords) (cell_words c)) all_code_cells"
  by code_simp

text \<open>
  C2, as stated, fails at cell \<open>obvious-party\<close> of the first notebook: the cell calls
  nothing, and its one computation, formatting \<open>sector\<close>, \<open>camera\<close> and \<open>ccd\<close> into the
  cube URI, is done by the Python interpreter on the cell's own integers, so it is no
  call into any of the libraries and tools the claim lists.
\<close>

theorem C2_counterexample_obvious_party:
  "cell_sites [] nb1_cell6_body = [Interpreter] \<and> call_count nb1_cell6_body = 0 \<and>
   Interpreter \<notin> set external_tools"
  by code_simp

text \<open>
  C2, amended. No code cell defines a function or a class (no \<open>def\<close>, \<open>class\<close> or
  \<open>lambda\<close>). Every call of a code cell is a call of a function or method reached
  through one of the libraries astrocut, astropy, astroquery, lightkurve, s3fs and
  nest_asyncio, and every shell command runs aws; each of the seven is called. The
  computations that are not calls are the attribute accesses, subscripts, comparisons and
  \<open>&\<close> operators applied to objects obtained through those libraries, which Python
  dispatches to the types of those objects, none of them defined in the repository (the
  package that defines such a type need not be the library the object was obtained
  through, nor one of the seven), and one computation of the interpreter itself: the
  f-string of cell \<open>obvious-party\<close>, which formats three integers into the cube URI.
\<close>

theorem C2_calls_are_external_and_one_fstring_is_not:
  "list_all (\<lambda>c. list_all (\<lambda>w. w \<notin> set definition_keywords) (cell_words c)) all_code_cells \<and>
   list_all (\<lambda>s. s \<in> set external_tools)
     (calls_of (notebook_operations [] notebook1_bodies) @
      calls_of (notebook_operations [] notebook2_bodies)) \<and>
   list_all (\<lambda>t. t \<in> set (calls_of (notebook_operations [] notebook1_bodies) @
                           calls_of (notebook_operations [] notebook2_bodies))) external_tools \<and>
   other_operations (notebook_operations [] notebook1_bodies) =
     [[(AttributeAccess, Via ''astrocut'')],
      [(AttributeAccess, Via ''astropy'')],
      [(Formatting, Interpreter)],
      [(AttributeAccess, Via ''nest_asyncio''), (AttributeAccess, Via ''astrocut'')],
      [(AttributeAccess, Via ''lightkurve''), (AttributeAccess, Via ''lightkurve'')]] \<and>
   other_operations (notebook_operations [] notebook2_bodies) =
     [[(AttributeAccess, Via ''astroquery''),
       (BinaryOperation, Via ''astroquery''), (BinaryOperation, Via ''astroquery''),
       (Comparison, Via ''astroquery''), (Subscription, Via ''astroquery''),
       (Comparison, Via ''astroquery''), (Subscription, Via ''astroquery''),
       (Comparison, Via ''astroquery''), (Subscription, Via ''astroquery''),
       (AttributeAccess, Via ''astroquery''), (Subscription, Via ''astroquery''),
       (AttributeAccess, Via ''astroquery''), (AttributeAccess, Via ''astroquery''),
       (AttributeAccess, Via ''astroquery'')],
      [(AttributeAccess, Via ''astroquery''), (AttributeAccess, Via ''lightkurve''),
       (AttributeAccess, Via ''lightkurve''), (Subscription, Via ''lightkurve'')],
      [], [], [],
      [(AttributeAccess, Via ''s3fs''), (AttributeAccess, Via ''s3fs''),
       (AttributeAccess, Via ''s3fs'')]] \<and>
   map (node_site []) (assigned ''cube_file'' nb1_cell6_body) = [[Interpreter]]"
proof -
  have calls1: "calls_of (notebook_operations [] notebook1_bodies) =
      [Via ''astropy'', Via ''nest_asyncio'', Via ''astrocut'', Via ''astrocut'',
       Via ''lightkurve'', Via ''lightkurve'']"
    by code_simp
  have calls2: "calls_of (notebook_operations [] notebook2_bodies) =
      [Via ''astroquery'', Via ''astroquery'', Via ''astroquery'', Via ''astroquery'',
       Via ''astroquery'', Via ''astroquery'', Via ''lightkurve'', Via ''lightkurve'',
       Tool ''aws'', Tool ''aws'', Tool ''aws'', Via ''s3fs'', Via ''s3fs'', Via ''s3fs'']"
    by code_simp
  have a: "list_all (\<lambda>s. s \<in> set external_tools)
      (calls_of (notebook_operations [] notebook1_bodies) @
       calls_of (notebook_operations [] notebook2_bodies))"
    unfolding calls1 calls2 by code_simp
  have b: "list_all (\<lambda>t. t \<in> set (calls_of (notebook_operations [] notebook1_bodies) @
      calls_of (notebook_operations [] notebook2_bodies))) external_tools"
    unfolding calls1 calls2 by code_simp
  have c: "other_operations (notebook_operations [] notebook1_bodies) =
     [[(AttributeAccess, Via ''astrocut'')],
      [(AttributeAccess, Via ''astropy'')],
      [(Formatting, Interpreter)],
      [(AttributeAccess, Via ''nest_asyncio''), (AttributeAccess, Via ''astrocut'')],
      [(AttributeAccess, Via ''lightkurve''), (AttributeAccess, Via ''lightkurve'')]]"
    by code_simp
  have d: "other_operations (notebook_operations [] notebook2_bodies) =
     [[(AttributeAccess, Via ''astroquery''),
       (BinaryOperation, Via ''astroquery''), (BinaryOperation, Via ''astroquery''),
       (Comparison, Via ''astroquery''), (Subscription, Via ''astroquery''),
       (Comparison, Via ''astroquery''), (Subscription, Via ''astroquery''),
       (Comparison, Via ''astroquery''), (Subscription, Via ''astroquery''),
       (AttributeAccess, Via ''astroquery''), (Subscription, Via ''astroquery''),
       (AttributeAccess, Via ''astroquery''), (AttributeAccess, Via ''astroquery''),
       (AttributeAccess, Via ''astroquery'')],
      [(AttributeAccess, Via ''astroquery''), (AttributeAccess, Via ''lightkurve''),
       (AttributeAccess, Via ''lightkurve''), (Subscription, Via ''lightkurve'')],
      [], [], [],
      [(AttributeAccess, Via ''s3fs''), (AttributeAccess, Via ''s3fs''),
       (AttributeAccess, Via ''s3fs'')]]"
    by code_simp
  have e: "map (node_site []) (assigned ''cube_file'' nb1_cell6_body) = [[Interpreter]]"
    by code_simp
  from no_definition_keywords a b c d e show ?thesis
    by - (intro conjI, assumption+)
qed

section \<open>The cube URI\<close>

lemma is_digit_digit_char: "d < 10 \<Longrightarrow> is_digit (digit_char d)"
  by (simp add: is_digit_def digit_char_def)

lemma show_nat_digits: "list_all is_digit (show_nat n)"
proof (induction n rule: show_nat.induct)
  case (1 n)
  show ?case
  proof (cases "n < 10")
    case True
    then show ?thesis
      by (subst show_nat.simps) (simp add: is_digit_digit_char)
  next
    case False
    with 1 have "list_all is_digit (show_nat (n div 10))"
      by simp
    moreover have "is_digit (digit_char (n mod 10))"
      by (rule is_digit_digit_char) simp
    ultimately show ?thesis
      using False by (subst show_nat.simps) simp
  qed
qed

lemma show_nat_length: "0 < k \<Longrightarrow> n < 10 ^ k \<Longrightarrow> length (show_nat n) \<le> k"
proof (induction k arbitrary: n)
  case 0
  then show ?case by simp
next
  case (Suc k)
  show ?case
  proof (cases "n < 10")
    case True
    then show ?thesis
      by (subst show_nat.simps) simp
  next
    case False
    with Suc.prems have k: "0 < k"
      by (cases k) simp_all
    from Suc.prems have "n div 10 < 10 ^ k"
      by (simp add: less_mult_imp_div_less mult.commute)
    with k have "length (show_nat (n div 10)) \<le> k"
      by (rule Suc.IH)
    with False show ?thesis
      by (subst show_nat.simps) simp
  qed
qed

lemma digit_char_simps:
  "digit_char 0 = CHR ''0''" "digit_char (Suc 0) = CHR ''1''" "digit_char 2 = CHR ''2''"
  "digit_char 3 = CHR ''3''" "digit_char 4 = CHR ''4''" "digit_char 5 = CHR ''5''"
  "digit_char 6 = CHR ''6''" "digit_char 7 = CHR ''7''" "digit_char 8 = CHR ''8''"
  "digit_char 9 = CHR ''9''"
  by code_simp+

lemma list_all_replicate: "P x \<Longrightarrow> list_all P (replicate n x)"
  by (induction n) simp_all

lemma sector_field_eq: "sector_field s = Some (pad_int True 4 s)"
  by (simp add: sector_field_def assigned_def nb1_cell6_body_def field_specs_def
      format_int_def is_digit_def)

lemma cube_uri_eq:
  "cube_uri s c d =
     Some (VStr (''s3://stpubdata/tess/public/mast/tess-s'' @ pad_int True 4 s @ ''-'' @
       show_int c @ ''-'' @ show_int d @ ''-cube.fits''))"
  by (simp add: cube_uri_def assigned_def nb1_cell6_body_def format_int_def is_digit_def)

lemma pad_four:
  assumes "0 \<le> s" and "s \<le> 9999"
  shows "pad_int True 4 s =
           replicate (4 - length (show_nat (nat s))) (CHR ''0'') @ show_nat (nat s)"
    and "length (pad_int True 4 s) = 4"
    and "list_all is_digit (pad_int True 4 s)"
proof -
  from assms have "nat s < 10 ^ 4"
    by simp
  then have len: "length (show_nat (nat s)) \<le> 4"
    by (intro show_nat_length) simp_all
  from assms show eq: "pad_int True 4 s =
      replicate (4 - length (show_nat (nat s))) (CHR ''0'') @ show_nat (nat s)"
    by (simp add: pad_int_def Let_def)
  from len show "length (pad_int True 4 s) = 4"
    by (simp add: eq)
  have "is_digit (CHR ''0'')"
    by (simp add: is_digit_def)
  then show "list_all is_digit (pad_int True 4 s)"
    by (simp add: eq show_nat_digits list_all_replicate)
qed

text \<open>
  C4, as stated, fails for a sector of more than four digits: the width \<open>4\<close> of the
  format specification \<open>04d\<close> is a minimum, so sector 10000 gives a field of five digits.
\<close>

theorem C4_counterexample_sector_10000:
  "sector_field 10000 = Some ''10000'' \<and> map_option length (sector_field 10000) = Some 5"
  by (simp add: sector_field_eq pad_int_def show_nat.simps digit_char_simps)

text \<open>
  C4, amended. Instantiating the f-string of cell \<open>obvious-party\<close>, which is the template
  the prose gives, with sector 11, camera 4 and ccd 1 yields the example URI of the
  prose, and with 27, 3 and 3, the values the cell assigns, yields
  \<open>s3://stpubdata/tess/public/mast/tess-s0027-3-3-cube.fits\<close>, which running the cell
  binds to \<open>cube_file\<close>. For every sector from 0 to 9999 the sector field is the decimal
  sector padded with zeros to exactly four digits.
\<close>

theorem C4_cube_uri_instances_and_four_digit_sector:
  assumes "0 \<le> sector" and "sector \<le> 9999"
  shows "map (\<lambda>v. ''    '' @ template_text v @ ''\<newline>'') (assigned ''cube_file'' nb1_cell6_body) =
           [nb1_cell0_source ! 15] \<and>
         cube_uri 11 4 1 =
           Some (VStr ''s3://stpubdata/tess/public/mast/tess-s0011-4-1-cube.fits'') \<and>
         nb1_cell0_source ! 19 =
           ''    s3://stpubdata/tess/public/mast/tess-s0011-4-1-cube.fits\<newline>'' \<and>
         cube_uri 27 3 3 =
           Some (VStr ''s3://stpubdata/tess/public/mast/tess-s0027-3-3-cube.fits'') \<and>
         map_option (\<lambda>st. map_of st ''cube_file'') (exec_cell [] nb1_cell6_body) =
           Some (cube_uri 27 3 3) \<and>
         (\<exists>f. sector_field sector = Some f \<and> length f = 4 \<and> list_all is_digit f \<and>
              f = replicate (4 - length (show_nat (nat sector))) (CHR ''0'') @
                    show_nat (nat sector) \<and>
              cube_uri sector camera ccd =
                Some (VStr (''s3://stpubdata/tess/public/mast/tess-s'' @ f @ ''-'' @
                  show_int camera @ ''-'' @ show_int ccd @ ''-cube.fits'')))"
proof -
  have template: "map (\<lambda>v. ''    '' @ template_text v @ ''\<newline>'')
      (assigned ''cube_file'' nb1_cell6_body) = [nb1_cell0_source ! 15]"
    by code_simp
  have prose: "cube_uri 11 4 1 =
      Some (VStr ''s3://stpubdata/tess/public/mast/tess-s0011-4-1-cube.fits'')"
    by code_simp
  have example: "nb1_cell0_source ! 19 =
      ''    s3://stpubdata/tess/public/mast/tess-s0011-4-1-cube.fits\<newline>''"
    by code_simp
  have cell: "cube_uri 27 3 3 =
      Some (VStr ''s3://stpubdata/tess/public/mast/tess-s0027-3-3-cube.fits'')"
    by code_simp
  have run: "map_option (\<lambda>st. map_of st ''cube_file'') (exec_cell [] nb1_cell6_body) =
      Some (cube_uri 27 3 3)"
    by code_simp
  have field: "\<exists>f. sector_field sector = Some f \<and> length f = 4 \<and> list_all is_digit f \<and>
      f = replicate (4 - length (show_nat (nat sector))) (CHR ''0'') @ show_nat (nat sector) \<and>
      cube_uri sector camera ccd =
        Some (VStr (''s3://stpubdata/tess/public/mast/tess-s'' @ f @ ''-'' @
          show_int camera @ ''-'' @ show_int ccd @ ''-cube.fits''))"
  proof (intro exI conjI)
    show "sector_field sector = Some (pad_int True 4 sector)"
      by (rule sector_field_eq)
    show "length (pad_int True 4 sector) = 4"
      using assms by (rule pad_four)
    show "list_all is_digit (pad_int True 4 sector)"
      using assms by (rule pad_four)
    show "pad_int True 4 sector =
        replicate (4 - length (show_nat (nat sector))) (CHR ''0'') @ show_nat (nat sector)"
      using assms by (rule pad_four)
    show "cube_uri sector camera ccd =
        Some (VStr (''s3://stpubdata/tess/public/mast/tess-s'' @ pad_int True 4 sector @ ''-'' @
          show_int camera @ ''-'' @ show_int ccd @ ''-cube.fits''))"
      by (rule cube_uri_eq)
  qed
  from template prose example cell run field show ?thesis
    by - (intro conjI, assumption+)
qed

text \<open>C4, amended, at the sector, camera and ccd the cell assigns: 27, 3 and 3.\<close>

theorem C4_witness_sector_27:
  "map (\<lambda>v. ''    '' @ template_text v @ ''\<newline>'') (assigned ''cube_file'' nb1_cell6_body) =
     [nb1_cell0_source ! 15] \<and>
   cube_uri 11 4 1 =
     Some (VStr ''s3://stpubdata/tess/public/mast/tess-s0011-4-1-cube.fits'') \<and>
   nb1_cell0_source ! 19 =
     ''    s3://stpubdata/tess/public/mast/tess-s0011-4-1-cube.fits\<newline>'' \<and>
   cube_uri 27 3 3 =
     Some (VStr ''s3://stpubdata/tess/public/mast/tess-s0027-3-3-cube.fits'') \<and>
   map_option (\<lambda>st. map_of st ''cube_file'') (exec_cell [] nb1_cell6_body) =
     Some (cube_uri 27 3 3) \<and>
   (\<exists>f. sector_field 27 = Some f \<and> length f = 4 \<and> list_all is_digit f \<and>
        f = replicate (4 - length (show_nat (nat 27))) (CHR ''0'') @ show_nat (nat 27) \<and>
        cube_uri 27 3 3 =
          Some (VStr (''s3://stpubdata/tess/public/mast/tess-s'' @ f @ ''-'' @
            show_int 3 @ ''-'' @ show_int 3 @ ''-cube.fits'')))"
  by (rule C4_cube_uri_instances_and_four_digit_sector [where sector = 27 and camera = 3 and ccd = 3])
    simp_all


section \<open>The cutout file\<close>


section \<open>Files\<close>



section \<open>Error handling\<close>



section \<open>Threads, tasks and processes\<close>



section \<open>Anonymous access\<close>





end
